theory Spec2Isabelle
  imports Main "HOL-Library.Word" "HOL-Library.Signed_Division" "HOL-Library.FSet"
    "HOL-Library.Finite_Map"
begin

section \<open>The NAT connection tracker of pkg/ebpf/netlink/conntracker.go\<close>

text \<open>
  A shallow embedding of \<^verbatim>\<open>conntracker.go\<close>. Go structs are records, nullable
  pointers are options, a nil-pointer dereference (a Go panic) is the error value
  \<open>NilPointerDereference\<close>, Go maps are finite maps, \<^verbatim>\<open>int64\<close>, \<^verbatim>\<open>uint16\<close> and
  \<^verbatim>\<open>uint8\<close> are words of that width, and \<^verbatim>\<open>int\<close> configuration values are integers.
  Each method of \<^verbatim>\<open>realConntracker\<close> takes the tracker and returns the updated one;
  the readings of \<^verbatim>\<open>time.Now().UnixNano()\<close> are arguments. The mutex serialises
  the methods, so a run of the tracker is a sequence of method calls. Log output is not
  part of the tracker and is left out; the state of the log limiter is kept.
\<close>

subsection \<open>Data\<close>

datatype error = NilPointerDereference | Error string

definition deref :: "'a option \<Rightarrow> error + 'a" where
  "deref p = (case p of None \<Rightarrow> Inl NilPointerDereference | Some x \<Rightarrow> Inr x)"

definition bindE :: "error + 'a \<Rightarrow> ('a \<Rightarrow> error + 'b) \<Rightarrow> error + 'b" where
  "bindE r f = (case r of Inl e \<Rightarrow> Inl e | Inr x \<Rightarrow> f x)"

text \<open>\<^verbatim>\<open>net.IP\<close> is a byte slice.\<close>

type_synonym IP = "8 word list"

text \<open>The conntrack entry of go-conntrack: every field is a pointer and may be nil.\<close>

record ProtoTuple =
  Number :: "8 word option"
  SrcPort :: "16 word option"
  DstPort :: "16 word option"

record IPTuple =
  Src :: "IP option"
  Dst :: "IP option"
  Proto :: "ProtoTuple option"

record Con =
  Origin :: "IPTuple option"
  Reply :: "IPTuple option"

datatype ConnectionType = ConnectionType_tcp | ConnectionType_udp

record 'addr connKey =
  ip :: 'addr
  port :: "16 word"
  transport :: ConnectionType

record 'addr IPTranslation =
  ReplSrcIP :: 'addr
  ReplDstIP :: 'addr
  ReplSrcPort :: "16 word"
  ReplDstPort :: "16 word"

text \<open>
  \<^verbatim>\<open>connValue\<close> embeds a pointer to an \<^verbatim>\<open>IPTranslation\<close>. No code writes through
  that pointer after \<^verbatim>\<open>formatIPTranslation\<close> has built the value, so the record holds
  the translation itself.
\<close>

record 'addr connValue =
  IPTranslation :: "'addr IPTranslation"
  expGeneration :: "8 word"

record stats =
  gets :: "64 word"
  getTimeTotal :: "64 word"
  registers :: "64 word"
  registersTotalTime :: "64 word"
  unregisters :: "64 word"
  unregistersTotalTime :: "64 word"
  expiresTotal :: "64 word"

text \<open>
  The kernel handles and the ticker are external resources; the tracker only opens,
  stops or closes them, which is what these two types record.
\<close>

datatype Nfct = NfctOpen | NfctClosed

datatype Ticker = TickerRunning | TickerStopped

text \<open>
  The background worker is the goroutine that \<^verbatim>\<open>go ctr.run()\<close> starts; it calls
  \<^verbatim>\<open>compact\<close> on every tick of the compaction ticker. It is no field of the Go
  struct. The field \<open>compactWorker\<close> of the record below records whether the worker
  has been started and whether it has been waited for.
\<close>

datatype Worker = WorkerNotStarted | WorkerRunning | WorkerJoined

record ('addr, 'lim) realConntracker =
  nfct :: Nfct
  nfctDel :: Nfct
  state :: "('addr connKey, 'addr connValue) fmap"
  shortLivedBuffer :: "('addr connKey, 'addr IPTranslation) fmap"
  maxShortLivedBuffer :: int
  maxStateSize :: int
  statsTicker :: "Ticker option"
  compactTicker :: Ticker
  compactWorker :: Worker
  stats :: stats
  exceededSizeLogLimit :: 'lim

text \<open>\<^verbatim>\<open>len(m)\<close> of a Go map, as an \<^verbatim>\<open>int\<close>.\<close>

definition len :: "('k, 'v) fmap \<Rightarrow> int" where
  "len m = int (fcard (fmdom m))"

subsection \<open>Constants and the generation clock\<close>

text \<open>Durations are \<^verbatim>\<open>int64\<close> nanoseconds.\<close>

definition Minute :: "64 word" where
  "Minute = 60000000000"

definition compactInterval :: "64 word" where
  "compactInterval = Minute * 3"

definition generationLength :: "64 word" where
  "generationLength = compactInterval + Minute"

text \<open>Go's \<^verbatim>\<open>/\<close> on \<^verbatim>\<open>int64\<close>: the quotient is truncated towards zero and wraps.\<close>

definition div_int64 :: "64 word \<Rightarrow> 64 word \<Rightarrow> 64 word" where
  "div_int64 a b = word_of_int (sint a sdiv sint b)"

text \<open>
  Modelled from the spec: \<^verbatim>\<open>getCurrentGeneration\<close> and \<^verbatim>\<open>getNthGeneration\<close> are
  called by the tracker and defined in a file that is not part of the sources at hand.
  The spec gives \<open>current(now) = (now / generationLength) mod 256\<close> and
  \<open>nth(now, n) = current(now) + n mod 256\<close>.
\<close>

definition getCurrentGeneration :: "64 word \<Rightarrow> 64 word \<Rightarrow> 8 word" where
  "getCurrentGeneration genLength now = ucast (div_int64 now genLength)"

definition getNthGeneration :: "64 word \<Rightarrow> 64 word \<Rightarrow> 8 word \<Rightarrow> 8 word" where
  "getNthGeneration genLength now n = getCurrentGeneration genLength now + n"

subsection \<open>The event decoder\<close>

text \<open>
  \<^verbatim>\<open>net.IP.Equal\<close> of the Go standard library: slices of the same length are
  compared bytewise, and a 4-byte address equals its 16-byte IPv4-in-IPv6 form.
\<close>

definition v4InV6Prefix :: IP where
  "v4InV6Prefix = [0, 0, 0, 0, 0, 0, 0, 0, 0, 0, 255, 255]"

definition Equal :: "IP \<Rightarrow> IP \<Rightarrow> bool" where
  "Equal a x =
     (if length a = length x then a = x
      else if length a = 4 \<and> length x = 16 then take 12 x = v4InV6Prefix \<and> a = drop 12 x
      else if length a = 16 \<and> length x = 4 then take 12 a = v4InV6Prefix \<and> drop 12 a = x
      else False)"

text \<open>
  \<^verbatim>\<open>isNAT\<close> checks eight pointers for nil and then dereferences the four address
  pointers, which it has not checked. The disjunction is evaluated left to right and
  stops at the first true disjunct.
\<close>

definition isNAT :: "Con \<Rightarrow> error + bool" where
  "isNAT c =
     (case Origin c of None \<Rightarrow> Inr False | Some orig \<Rightarrow>
      case Reply c of None \<Rightarrow> Inr False | Some rep \<Rightarrow>
      case Proto orig of None \<Rightarrow> Inr False | Some oproto \<Rightarrow>
      case Proto rep of None \<Rightarrow> Inr False | Some rproto \<Rightarrow>
      case SrcPort oproto of None \<Rightarrow> Inr False | Some osp \<Rightarrow>
      case DstPort oproto of None \<Rightarrow> Inr False | Some odp \<Rightarrow>
      case SrcPort rproto of None \<Rightarrow> Inr False | Some rsp \<Rightarrow>
      case DstPort rproto of None \<Rightarrow> Inr False | Some rdp \<Rightarrow>
        bindE (deref (Src orig)) (\<lambda>osrc.
        bindE (deref (Dst rep)) (\<lambda>rdst.
          if \<not> Equal osrc rdst then Inr True
          else
            bindE (deref (Dst orig)) (\<lambda>odst.
            bindE (deref (Src rep)) (\<lambda>rsrc.
              if \<not> Equal odst rsrc then Inr True
              else Inr (osp \<noteq> rdp \<or> odp \<noteq> rsp))))))"

text \<open>
  \<^verbatim>\<open>ReplSrcIP\<close> and \<^verbatim>\<open>ReplDstIP\<close>, the functions on a conntrack entry. The suffix
  keeps them apart from the fields of \<^verbatim>\<open>IPTranslation\<close> of the same names.
\<close>

definition ReplSrcIP_Con :: "Con \<Rightarrow> error + IP" where
  "ReplSrcIP_Con c = bindE (deref (Reply c)) (\<lambda>rep. deref (Src rep))"

definition ReplDstIP_Con :: "Con \<Rightarrow> error + IP" where
  "ReplDstIP_Con c = bindE (deref (Reply c)) (\<lambda>rep. deref (Dst rep))"

text \<open>
  \<^verbatim>\<open>util.AddressFromNetIP\<close> is defined outside the sources at hand; the functions
  that call it take it as the parameter \<open>addressFromNetIP\<close>.
\<close>

definition formatIPTranslation ::
  "(IP \<Rightarrow> 'addr) \<Rightarrow> Con \<Rightarrow> 8 word \<Rightarrow> error + 'addr connValue" where
  "formatIPTranslation addressFromNetIP c generation =
     bindE (ReplSrcIP_Con c) (\<lambda>replSrcIP.
     bindE (ReplDstIP_Con c) (\<lambda>replDstIP.
     bindE (deref (Reply c)) (\<lambda>rep.
     bindE (deref (Proto rep)) (\<lambda>rproto.
     bindE (deref (SrcPort rproto)) (\<lambda>replSrcPort.
     bindE (deref (DstPort rproto)) (\<lambda>replDstPort.
       Inr \<lparr>IPTranslation =
              \<lparr>ReplSrcIP = addressFromNetIP replSrcIP,
               ReplDstIP = addressFromNetIP replDstIP,
               ReplSrcPort = replSrcPort,
               ReplDstPort = replDstPort\<rparr>,
            expGeneration = generation\<rparr>))))))"

text \<open>
  \<^verbatim>\<open>formatKey\<close> returns the key and the flag \<^verbatim>\<open>ok\<close>. In the default case of the
  switch the transport keeps its zero value, which is \<^verbatim>\<open>ConnectionType_tcp\<close>.
\<close>

definition formatKey :: "(IP \<Rightarrow> 'addr) \<Rightarrow> Con \<Rightarrow> error + ('addr connKey \<times> bool)" where
  "formatKey addressFromNetIP c =
     bindE (deref (Origin c)) (\<lambda>orig.
     bindE (deref (Src orig)) (\<lambda>osrc.
     bindE (deref (Proto orig)) (\<lambda>oproto.
     bindE (deref (SrcPort oproto)) (\<lambda>osp.
     bindE (deref (Number oproto)) (\<lambda>proto.
       if proto = 6 then
         Inr (\<lparr>ip = addressFromNetIP osrc, port = osp, transport = ConnectionType_tcp\<rparr>, True)
       else if proto = 17 then
         Inr (\<lparr>ip = addressFromNetIP osrc, port = osp, transport = ConnectionType_udp\<rparr>, True)
       else
         Inr (\<lparr>ip = addressFromNetIP osrc, port = osp, transport = ConnectionType_tcp\<rparr>, False))))))"

subsection \<open>The tracker engine\<close>

text \<open>
  \<^verbatim>\<open>util.LogLimit\<close> is defined outside the sources at hand. Its state is the type
  parameter \<open>'lim\<close>, and its methods \<^verbatim>\<open>ShouldLog\<close> and \<^verbatim>\<open>Close\<close> are the parameters
  \<open>shouldLog\<close> and \<open>logLimitClose\<close> of the functions that call them.
\<close>

definition logExceededSize ::
  "('lim \<Rightarrow> bool \<times> 'lim) \<Rightarrow> ('addr, 'lim) realConntracker \<Rightarrow> ('addr, 'lim) realConntracker" where
  "logExceededSize shouldLog ctr =
     ctr\<lparr>exceededSizeLogLimit := snd (shouldLog (exceededSizeLogLimit ctr))\<rparr>"

text \<open>One iteration of the loop of \<^verbatim>\<open>loadInitialState\<close>, and the loop.\<close>

definition loadInitialState_body ::
  "(IP \<Rightarrow> 'addr) \<Rightarrow> 8 word \<Rightarrow> Con \<Rightarrow> ('addr, 'lim) realConntracker
     \<Rightarrow> error + ('addr, 'lim) realConntracker" where
  "loadInitialState_body addressFromNetIP gen c ctr =
     bindE (isNAT c) (\<lambda>nat.
       if nat then
         bindE (formatKey addressFromNetIP c) (\<lambda>(k, ok).
           if ok then
             bindE (formatIPTranslation addressFromNetIP c gen) (\<lambda>v.
               Inr (ctr\<lparr>state := fmupd k v (state ctr)\<rparr>))
           else Inr ctr)
       else Inr ctr)"

fun loadInitialState_loop ::
  "(IP \<Rightarrow> 'addr) \<Rightarrow> 8 word \<Rightarrow> Con list \<Rightarrow> ('addr, 'lim) realConntracker
     \<Rightarrow> error + ('addr, 'lim) realConntracker" where
  "loadInitialState_loop addressFromNetIP gen [] ctr = Inr ctr"
| "loadInitialState_loop addressFromNetIP gen (c # sessions) ctr =
     (case loadInitialState_body addressFromNetIP gen c ctr of
        Inl e \<Rightarrow> Inl e
      | Inr ctr' \<Rightarrow> loadInitialState_loop addressFromNetIP gen sessions ctr')"

definition loadInitialState ::
  "(IP \<Rightarrow> 'addr) \<Rightarrow> 64 word \<Rightarrow> Con list \<Rightarrow> ('addr, 'lim) realConntracker
     \<Rightarrow> error + ('addr, 'lim) realConntracker" where
  "loadInitialState addressFromNetIP now sessions ctr =
     loadInitialState_loop addressFromNetIP (getNthGeneration generationLength now 3) sessions ctr"

text \<open>
  \<^verbatim>\<open>register\<close>, the callback for create and update events. \<open>now\<close> and \<open>then0\<close> (the variable \<^verbatim>\<open>then\<close>) are
  the two clock readings. The callback returns 0 on every path.
\<close>

definition register ::
  "(IP \<Rightarrow> 'addr) \<Rightarrow> ('lim \<Rightarrow> bool \<times> 'lim) \<Rightarrow> 64 word \<Rightarrow> 64 word \<Rightarrow> Con
     \<Rightarrow> ('addr, 'lim) realConntracker \<Rightarrow> error + (int \<times> ('addr, 'lim) realConntracker)" where
  "register addressFromNetIP shouldLog now then0 c ctr =
     bindE (isNAT c) (\<lambda>nat.
       if \<not> nat then Inr (0, ctr)
       else
         bindE (formatKey addressFromNetIP c) (\<lambda>(key, ok).
           if \<not> ok then Inr (0, ctr)
           else if len (state ctr) \<ge> maxStateSize ctr then
             Inr (0, logExceededSize shouldLog ctr)
           else
             bindE (formatIPTranslation addressFromNetIP c
                      (getNthGeneration generationLength now 3)) (\<lambda>v.
               Inr (0, ctr\<lparr>state := fmupd key v (state ctr),
                           stats := (stats ctr)
                             \<lparr>registers := registers (stats ctr) + 1,
                              registersTotalTime :=
                                registersTotalTime (stats ctr) + (then0 - now)\<rparr>\<rparr>))))"

text \<open>\<^verbatim>\<open>unregister\<close>, the callback for destroy events.\<close>

definition unregister ::
  "(IP \<Rightarrow> 'addr) \<Rightarrow> 64 word \<Rightarrow> 64 word \<Rightarrow> Con
     \<Rightarrow> ('addr, 'lim) realConntracker \<Rightarrow> error + (int \<times> ('addr, 'lim) realConntracker)" where
  "unregister addressFromNetIP now then0 c ctr =
     bindE (isNAT c) (\<lambda>nat.
       if \<not> nat then Inr (0, ctr)
       else
         bindE (formatKey addressFromNetIP c) (\<lambda>(key, ok).
           if \<not> ok then Inr (0, ctr)
           else
             let translation = fmlookup (state ctr) key;
                 ctr1 = ctr\<lparr>state := fmdrop key (state ctr)\<rparr>;
                 ctr2 = (case translation of
                           Some v \<Rightarrow>
                             if len (shortLivedBuffer ctr1) < maxShortLivedBuffer ctr1 then
                               ctr1\<lparr>shortLivedBuffer :=
                                      fmupd key (IPTranslation v) (shortLivedBuffer ctr1)\<rparr>
                             else ctr1
                         | None \<Rightarrow> ctr1)
             in Inr (0, ctr2\<lparr>stats := (stats ctr2)
                              \<lparr>unregisters := unregisters (stats ctr2) + 1,
                               unregistersTotalTime :=
                                 unregistersTotalTime (stats ctr2) + (then0 - now)\<rparr>\<rparr>)))"

text \<open>
  \<^verbatim>\<open>compact\<close> rebuilds the state map from the entries whose generation is not the
  current one and counts the others.
\<close>

definition compact ::
  "64 word \<Rightarrow> ('addr, 'lim) realConntracker \<Rightarrow> ('addr, 'lim) realConntracker" where
  "compact now ctr =
     (let gen = getCurrentGeneration generationLength now;
          copied = fmfilter (\<lambda>k. case fmlookup (state ctr) k of
                                    None \<Rightarrow> False
                                  | Some v \<Rightarrow> expGeneration v \<noteq> gen) (state ctr);
          expired = fmfilter (\<lambda>k. case fmlookup (state ctr) k of
                                     None \<Rightarrow> False
                                   | Some v \<Rightarrow> expGeneration v = gen) (state ctr)
      in ctr\<lparr>state := copied,
             stats := (stats ctr)
               \<lparr>expiresTotal := expiresTotal (stats ctr) + of_nat (fcard (fmdom expired))\<rparr>\<rparr>)"

text \<open>
  \<^verbatim>\<open>GetTranslationForConn\<close>: \<open>then0\<close> (the variable \<^verbatim>\<open>then\<close>) is the clock reading on entry, \<open>now\<close> the one
  before the counters are updated. The result \<open>None\<close> is the nil pointer.
\<close>

definition GetTranslationForConn ::
  "64 word \<Rightarrow> 64 word \<Rightarrow> 'addr \<Rightarrow> 16 word \<Rightarrow> ConnectionType
     \<Rightarrow> ('addr, 'lim) realConntracker
     \<Rightarrow> 'addr IPTranslation option \<times> ('addr, 'lim) realConntracker" where
  "GetTranslationForConn then0 now addr prt tr ctr =
     (let k = \<lparr>ip = addr, port = prt, transport = tr\<rparr>;
          (result, ctr1) =
            (case fmlookup (state ctr) k of
               None \<Rightarrow> (fmlookup (shortLivedBuffer ctr) k, ctr)
             | Some val \<Rightarrow>
                 (Some (IPTranslation val),
                  ctr\<lparr>state :=
                        fmupd k (val\<lparr>expGeneration :=
                                        getNthGeneration generationLength then0 3\<rparr>)
                          (state ctr)\<rparr>))
      in (result,
          ctr1\<lparr>stats := (stats ctr1)
                 \<lparr>gets := gets (stats ctr1) + 1,
                  getTimeTotal := getTimeTotal (stats ctr1) + (now - then0)\<rparr>\<rparr>))"

definition ClearShortLived ::
  "('addr, 'lim) realConntracker \<Rightarrow> ('addr, 'lim) realConntracker" where
  "ClearShortLived ctr = ctr\<lparr>shortLivedBuffer := fmempty\<rparr>"

definition GetStats :: "('addr, 'lim) realConntracker \<Rightarrow> (string, 64 word) fmap" where
  "GetStats ctr =
     (let size = len (state ctr);
          stBufSize = len (shortLivedBuffer ctr);
          m0 = fmupd ''expires'' (expiresTotal (stats ctr))
                 (fmupd ''short_term_buffer_size'' (of_int stBufSize)
                   (fmupd ''state_size'' (of_int size) fmempty));
          m1 = (if gets (stats ctr) \<noteq> 0 then
                  fmupd ''nanoseconds_per_get''
                    (div_int64 (getTimeTotal (stats ctr)) (gets (stats ctr)))
                    (fmupd ''gets_total'' (gets (stats ctr)) m0)
                else m0);
          m2 = (if registers (stats ctr) \<noteq> 0 then
                  fmupd ''nanoseconds_per_register''
                    (div_int64 (registersTotalTime (stats ctr)) (registers (stats ctr)))
                    (fmupd ''registers_total'' (registers (stats ctr)) m1)
                else m1);
          m3 = (if unregisters (stats ctr) \<noteq> 0 then
                  fmupd ''nanoseconds_per_unregister''
                    (div_int64 (unregistersTotalTime (stats ctr)) (unregisters (stats ctr)))
                    (fmupd ''unregisters_total'' (unregisters (stats ctr)) m2)
                else m2)
      in m3)"

text \<open>
  \<^verbatim>\<open>Close\<close> calls \<^verbatim>\<open>Stop\<close> on the compaction ticker and \<^verbatim>\<open>Close\<close> on the log
  limiter, and nothing else.
\<close>

definition Close ::
  "('lim \<Rightarrow> 'lim) \<Rightarrow> ('addr, 'lim) realConntracker \<Rightarrow> ('addr, 'lim) realConntracker" where
  "Close logLimitClose ctr =
     ctr\<lparr>compactTicker := TickerStopped,
         exceededSizeLogLimit := logLimitClose (exceededSizeLogLimit ctr)\<rparr>"

text \<open>
  \<^verbatim>\<open>newConntrackerOnce\<close>. What the kernel transport answers is input: \<open>open1\<close> and
  \<open>open2\<close> are the error messages of the two \<^verbatim>\<open>ct.Open\<close> calls (\<open>None\<close> is
  success), \<open>dump4\<close> and \<open>dump6\<close> are the sessions and the error message returned by
  the two dumps, and \<open>now4\<close> and \<open>now6\<close> are the clock readings of the two seedings.
  \<open>newLogLimit\<close> is the value of \<^verbatim>\<open>util.NewLogLimit(10, time.Minute*10)\<close>. The
  error of the second \<^verbatim>\<open>ct.Open\<close> is wrapped. A failed IPv6 dump is only logged and
  the sessions it returned are loaded all the same. The background worker is started
  after the two seedings.
\<close>

definition newConntrackerOnce ::
  "(IP \<Rightarrow> 'addr) \<Rightarrow> 'lim \<Rightarrow> int \<Rightarrow> int \<Rightarrow> string option \<Rightarrow> string option
     \<Rightarrow> Con list \<times> string option \<Rightarrow> 64 word \<Rightarrow> Con list \<times> string option \<Rightarrow> 64 word
     \<Rightarrow> error + ('addr, 'lim) realConntracker" where
  "newConntrackerOnce addressFromNetIP newLogLimit deleteBufferSize maxStateSize'
       open1 open2 dump4 now4 dump6 now6 =
     (if deleteBufferSize \<le> 0 then Inl (Error ''short term buffer size is less than 0'')
      else case open1 of Some err \<Rightarrow> Inl (Error err) | None \<Rightarrow>
           case open2 of
             Some err \<Rightarrow> Inl (Error (''failed to open delete NFCT: '' @ err))
           | None \<Rightarrow>
             let ctr = \<lparr>nfct = NfctOpen,
                        nfctDel = NfctOpen,
                        state = fmempty,
                        shortLivedBuffer = fmempty,
                        maxShortLivedBuffer = deleteBufferSize,
                        maxStateSize = maxStateSize',
                        statsTicker = None,
                        compactTicker = TickerRunning,
                        compactWorker = WorkerNotStarted,
                        stats = \<lparr>gets = 0, getTimeTotal = 0, registers = 0,
                                 registersTotalTime = 0, unregisters = 0,
                                 unregistersTotalTime = 0, expiresTotal = 0\<rparr>,
                        exceededSizeLogLimit = newLogLimit\<rparr>
             in case snd dump4 of Some err \<Rightarrow> Inl (Error err) | None \<Rightarrow>
                  bindE (loadInitialState addressFromNetIP now4 (fst dump4) ctr) (\<lambda>ctr4.
                  bindE (loadInitialState addressFromNetIP now6 (fst dump6) ctr4) (\<lambda>ctr6.
                    Inr (ctr6\<lparr>compactWorker := WorkerRunning\<rparr>))))"

subsection \<open>Runs of the tracker\<close>

text \<open>
  After construction the tracker is driven by the two kernel callbacks, the compaction
  ticker and the callers of the public methods. The mutex admits one of them at a
  time, so what the tracker goes through is a list of events. \<^verbatim>\<open>GetStats\<close> does not
  change the tracker and is no event.
\<close>

datatype 'addr event =
    EvRegister "64 word" "64 word" Con
  | EvUnregister "64 word" "64 word" Con
  | EvCompact "64 word"
  | EvGetTranslationForConn "64 word" "64 word" 'addr "16 word" ConnectionType
  | EvClearShortLived
  | EvClose

fun step ::
  "(IP \<Rightarrow> 'addr) \<Rightarrow> ('lim \<Rightarrow> bool \<times> 'lim) \<Rightarrow> ('lim \<Rightarrow> 'lim) \<Rightarrow> 'addr event
     \<Rightarrow> ('addr, 'lim) realConntracker \<Rightarrow> error + ('addr, 'lim) realConntracker" where
  "step addressFromNetIP shouldLog logLimitClose (EvRegister now then0 c) ctr =
     (case register addressFromNetIP shouldLog now then0 c ctr of
        Inl e \<Rightarrow> Inl e | Inr r \<Rightarrow> Inr (snd r))"
| "step addressFromNetIP shouldLog logLimitClose (EvUnregister now then0 c) ctr =
     (case unregister addressFromNetIP now then0 c ctr of
        Inl e \<Rightarrow> Inl e | Inr r \<Rightarrow> Inr (snd r))"
| "step addressFromNetIP shouldLog logLimitClose (EvCompact now) ctr = Inr (compact now ctr)"
| "step addressFromNetIP shouldLog logLimitClose
       (EvGetTranslationForConn then0 now addr prt tr) ctr =
     Inr (snd (GetTranslationForConn then0 now addr prt tr ctr))"
| "step addressFromNetIP shouldLog logLimitClose EvClearShortLived ctr =
     Inr (ClearShortLived ctr)"
| "step addressFromNetIP shouldLog logLimitClose EvClose ctr = Inr (Close logLimitClose ctr)"

fun run ::
  "(IP \<Rightarrow> 'addr) \<Rightarrow> ('lim \<Rightarrow> bool \<times> 'lim) \<Rightarrow> ('lim \<Rightarrow> 'lim) \<Rightarrow> 'addr event list
     \<Rightarrow> ('addr, 'lim) realConntracker \<Rightarrow> error + ('addr, 'lim) realConntracker" where
  "run addressFromNetIP shouldLog logLimitClose [] ctr = Inr ctr"
| "run addressFromNetIP shouldLog logLimitClose (ev # evs) ctr =
     (case step addressFromNetIP shouldLog logLimitClose ev ctr of
        Inl e \<Rightarrow> Inl e
      | Inr ctr' \<Rightarrow> run addressFromNetIP shouldLog logLimitClose evs ctr')"




subsection \<open>Concrete inputs\<close>

text \<open>
  Modelled from the spec: \<^verbatim>\<open>util.AddressFromNetIP\<close>, outside the sources at hand.
  The spec describes an Address as a 16-byte container that holds an IPv4 or IPv6
  address in canonical form. This instance of the parameter \<open>addressFromNetIP\<close> is
  used for the concrete runs below; the general theorems hold for every instance.
\<close>

definition AddressFromNetIP :: "IP \<Rightarrow> IP" where
  "AddressFromNetIP a =
     (if length a = 4 then v4InV6Prefix @ a else take 16 (a @ replicate 16 0))"

text \<open>
  Modelled from the spec: \<^verbatim>\<open>util.LogLimit\<close>, outside the sources at hand. The spec
  says that the warning is logged for the first ten occurrences; the limiter is the
  number of occurrences left. Its timer, which later allows one more message every
  ten minutes, is not modelled, and closing leaves the count as it is.
\<close>

definition NewLogLimit :: nat where
  "NewLogLimit = 10"

definition ShouldLog :: "nat \<Rightarrow> bool \<times> nat" where
  "ShouldLog n = (0 < n, n - 1)"

definition LogLimit_Close :: "nat \<Rightarrow> nat" where
  "LogLimit_Close n = n"

text \<open>
  A TCP flow from \<open>osrc\<close>, port 12345, to 50.30.40.10, port 80, that is answered by
  10.0.0.99: a destination NAT.
\<close>

definition natOrigin :: "IP \<Rightarrow> IPTuple" where
  "natOrigin osrc =
     \<lparr>Src = Some osrc, Dst = Some [50, 30, 40, 10],
      Proto = Some \<lparr>Number = Some 6, SrcPort = Some 12345, DstPort = Some 80\<rparr>\<rparr>"

definition natReply :: "IP \<Rightarrow> IPTuple" where
  "natReply osrc =
     \<lparr>Src = Some [10, 0, 0, 99], Dst = Some osrc,
      Proto = Some \<lparr>Number = Some 6, SrcPort = Some 80, DstPort = Some 12345\<rparr>\<rparr>"

definition natFlow :: "IP \<Rightarrow> Con" where
  "natFlow osrc = \<lparr>Origin = Some (natOrigin osrc), Reply = Some (natReply osrc)\<rparr>"

definition flow1 :: Con where "flow1 = natFlow [10, 0, 0, 1]"
definition flow2 :: Con where "flow2 = natFlow [10, 0, 0, 2]"
definition flow3 :: Con where "flow3 = natFlow [10, 0, 0, 3]"

definition flowKey :: "IP \<Rightarrow> IP connKey" where
  "flowKey osrc = \<lparr>ip = AddressFromNetIP osrc, port = 12345, transport = ConnectionType_tcp\<rparr>"

definition flowTranslation :: "IP \<Rightarrow> IP IPTranslation" where
  "flowTranslation osrc =
     \<lparr>ReplSrcIP = AddressFromNetIP [10, 0, 0, 99], ReplDstIP = AddressFromNetIP osrc,
      ReplSrcPort = 80, ReplDstPort = 12345\<rparr>"

text \<open>An entry whose origin source address is absent and every other field present.\<close>

definition noOriginSrc :: Con where
  "noOriginSrc =
     \<lparr>Origin = Some \<lparr>Src = None, Dst = Some [50, 30, 40, 10],
                      Proto = Some \<lparr>Number = Some 6, SrcPort = Some 12345, DstPort = Some 80\<rparr>\<rparr>,
      Reply = Some \<lparr>Src = Some [10, 0, 0, 99], Dst = Some [10, 0, 0, 1],
                     Proto = Some \<lparr>Number = Some 6, SrcPort = Some 80, DstPort = Some 12345\<rparr>\<rparr>\<rparr>"

text \<open>
  A NAT entry whose reply source address is absent and every other field present:
  the origin source 10.0.0.1 differs from the reply destination 10.0.0.2.
\<close>

definition noReplySrc :: Con where
  "noReplySrc =
     \<lparr>Origin = Some (natOrigin [10, 0, 0, 1]),
      Reply = Some \<lparr>Src = None, Dst = Some [10, 0, 0, 2],
                     Proto = Some \<lparr>Number = Some 6, SrcPort = Some 80, DstPort = Some 12345\<rparr>\<rparr>\<rparr>"

text \<open>A tracker with empty maps and the given capacities, as construction leaves it
  when both dumps are empty.\<close>

definition emptyTracker :: "int \<Rightarrow> int \<Rightarrow> (IP, nat) realConntracker" where
  "emptyTracker deleteBufferSize maxStateSize' =
     \<lparr>nfct = NfctOpen, nfctDel = NfctOpen, state = fmempty, shortLivedBuffer = fmempty,
      maxShortLivedBuffer = deleteBufferSize, maxStateSize = maxStateSize',
      statsTicker = None, compactTicker = TickerRunning, compactWorker = WorkerRunning,
      stats = \<lparr>gets = 0, getTimeTotal = 0, registers = 0, registersTotalTime = 0,
               unregisters = 0, unregistersTotalTime = 0, expiresTotal = 0\<rparr>,
      exceededSizeLogLimit = NewLogLimit\<rparr>"

text \<open>
  The entry stored for the flow from \<open>osrc\<close> with generation \<open>g\<close>, and the counters
  after \<open>r\<close> registrations and \<open>u\<close> unregistrations that took 5 nanoseconds each.
\<close>

definition flowEntry :: "IP \<Rightarrow> 8 word \<Rightarrow> IP connValue" where
  "flowEntry osrc g = \<lparr>IPTranslation = flowTranslation osrc, expGeneration = g\<rparr>"

definition counters :: "64 word \<Rightarrow> 64 word \<Rightarrow> stats" where
  "counters r u =
     \<lparr>gets = 0, getTimeTotal = 0, registers = r, registersTotalTime = 5 * r,
      unregisters = u, unregistersTotalTime = 5 * u, expiresTotal = 0\<rparr>"

text \<open>Two instants, in nanoseconds: the first lies in generation 4, the second in
  generation 5.\<close>

definition time1 :: "64 word" where "time1 = 1000000000000"
definition time2 :: "64 word" where "time2 = 1240000000000"

text \<open>
  Trackers that the runs below reach: \<open>tracked1\<close> after flow 1 was registered in
  generation 4, \<open>bothMaps\<close> after flow 1 was registered, destroyed and, in generation
  5, registered again, \<open>bufferFull\<close> after flows 1, 2 and 3 were each registered and
  destroyed with a short-lived buffer of capacity 2, and \<open>seededTwo\<close> after a
  construction that was given a state capacity of 1 and a dump of flows 1 and 2.
\<close>

definition tracked1 :: "int \<Rightarrow> int \<Rightarrow> (IP, nat) realConntracker" where
  "tracked1 deleteBufferSize maxStateSize' =
     (emptyTracker deleteBufferSize maxStateSize')
       \<lparr>state := fmupd (flowKey [10, 0, 0, 1]) (flowEntry [10, 0, 0, 1] 7) fmempty,
        stats := counters 1 0\<rparr>"

definition bothMaps :: "(IP, nat) realConntracker" where
  "bothMaps =
     (emptyTracker 2 10)
       \<lparr>state := fmupd (flowKey [10, 0, 0, 1]) (flowEntry [10, 0, 0, 1] 8) fmempty,
        shortLivedBuffer := fmupd (flowKey [10, 0, 0, 1]) (flowTranslation [10, 0, 0, 1]) fmempty,
        stats := counters 2 1\<rparr>"

definition bufferFull :: "(IP, nat) realConntracker" where
  "bufferFull =
     (emptyTracker 2 10)
       \<lparr>shortLivedBuffer :=
          fmupd (flowKey [10, 0, 0, 2]) (flowTranslation [10, 0, 0, 2])
            (fmupd (flowKey [10, 0, 0, 1]) (flowTranslation [10, 0, 0, 1]) fmempty),
        stats := counters 3 3\<rparr>"

definition seededTwo :: "(IP, nat) realConntracker" where
  "seededTwo =
     (emptyTracker 2 1)
       \<lparr>state :=
          fmupd (flowKey [10, 0, 0, 2]) (flowEntry [10, 0, 0, 2] 7)
            (fmupd (flowKey [10, 0, 0, 1]) (flowEntry [10, 0, 0, 1] 7) fmempty)\<rparr>"

text \<open>The tracker \<open>bufferFull\<close> before flow 3 was destroyed.\<close>

definition fullState3 :: "(IP, nat) realConntracker" where
  "fullState3 =
     bufferFull
       \<lparr>state := fmupd (flowKey [10, 0, 0, 3]) (flowEntry [10, 0, 0, 3] 7) fmempty,
        stats := counters 3 2\<rparr>"

text \<open>The tracker after flow 1 was registered and destroyed.\<close>

definition buffered1 :: "(IP, nat) realConntracker" where
  "buffered1 =
     (emptyTracker 2 10)
       \<lparr>shortLivedBuffer := fmupd (flowKey [10, 0, 0, 1]) (flowTranslation [10, 0, 0, 1]) fmempty,
        stats := counters 1 1\<rparr>"


text \<open>The tracker \<open>bothMaps\<close> after a lookup of flow 1 that took 7 nanoseconds.\<close>

definition queriedBoth :: "(IP, nat) realConntracker" where
  "queriedBoth =
     bothMaps
       \<lparr>stats := (counters 2 1)\<lparr>gets := 1, getTimeTotal := 7\<rparr>\<rparr>"

section \<open>Properties\<close>

subsection \<open>The concrete inputs, decoded\<close>

lemma isNAT_natFlow: "length a = 4 \<Longrightarrow> isNAT (natFlow a) = Inr True"
  by (simp add: isNAT_def natFlow_def natOrigin_def natReply_def bindE_def deref_def Equal_def)

lemma formatKey_natFlow: "formatKey AddressFromNetIP (natFlow a) = Inr (flowKey a, True)"
  by (simp add: formatKey_def natFlow_def natOrigin_def bindE_def deref_def flowKey_def)

lemma formatIPTranslation_natFlow:
  "formatIPTranslation AddressFromNetIP (natFlow a) g =
     Inr \<lparr>IPTranslation = flowTranslation a, expGeneration = g\<rparr>"
  by (simp add: formatIPTranslation_def ReplSrcIP_Con_def ReplDstIP_Con_def natFlow_def
      natReply_def bindE_def deref_def flowTranslation_def)

lemma getNthGeneration_time1: "getNthGeneration generationLength time1 3 = 7"
  by (simp add: getNthGeneration_def getCurrentGeneration_def generationLength_def
      compactInterval_def Minute_def div_int64_def signed_divide_int_def time1_def)

lemma getNthGeneration_time2: "getNthGeneration generationLength time2 3 = 8"
  by (simp add: getNthGeneration_def getCurrentGeneration_def generationLength_def
      compactInterval_def Minute_def div_int64_def signed_divide_int_def time2_def)

lemma len_simps:
  "len fmempty = 0"
  "len (fmupd k v m) = (if k |\<in>| fmdom m then len m else len m + 1)"
  by (simp_all add: len_def fcard_finsert_if)

lemma flowKey_eq: "length a = 4 \<Longrightarrow> length b = 4 \<Longrightarrow> flowKey a = flowKey b \<longleftrightarrow> a = b"
  by (auto simp: flowKey_def AddressFromNetIP_def)

subsection \<open>The event decoder\<close>

text \<open>When \<^verbatim>\<open>isNAT\<close> returns true, these ten pointers of the entry are not nil.\<close>

lemma isNAT_True_fields:
  assumes "isNAT c = Inr True"
  shows "\<exists>orig rep oproto rproto osp odp rsp rdp osrc rdst.
           Origin c = Some orig \<and> Reply c = Some rep \<and> Proto orig = Some oproto \<and>
           Proto rep = Some rproto \<and> SrcPort oproto = Some osp \<and> DstPort oproto = Some odp \<and>
           SrcPort rproto = Some rsp \<and> DstPort rproto = Some rdp \<and>
           Src orig = Some osrc \<and> Dst rep = Some rdst"
  using assms
  by (auto simp: isNAT_def bindE_def deref_def split: option.splits if_splits)

lemma formatIPTranslation_of_NAT:
  assumes "isNAT c = Inr True" and "Reply c = Some rep" and "Src rep = Some rsrc"
  shows "\<exists>rdst rproto rsp rdp.
           Dst rep = Some rdst \<and> Proto rep = Some rproto \<and>
           SrcPort rproto = Some rsp \<and> DstPort rproto = Some rdp \<and>
           formatIPTranslation addressFromNetIP c gen =
             Inr \<lparr>IPTranslation =
                    \<lparr>ReplSrcIP = addressFromNetIP rsrc, ReplDstIP = addressFromNetIP rdst,
                     ReplSrcPort = rsp, ReplDstPort = rdp\<rparr>,
                  expGeneration = gen\<rparr>"
proof -
  from isNAT_True_fields [OF assms(1)] assms(2)
  obtain rproto rsp rdp rdst where
    "Proto rep = Some rproto" "SrcPort rproto = Some rsp" "DstPort rproto = Some rdp"
    "Dst rep = Some rdst"
    by auto
  with assms(2,3) show ?thesis
    by (simp add: formatIPTranslation_def ReplSrcIP_Con_def ReplDstIP_Con_def bindE_def deref_def)
qed

text \<open>
  Claim C5. \<^verbatim>\<open>isNAT\<close> is to return false, and not fault, for every entry in which a
  required field is absent, the four addresses included. The code checks the tuples,
  the protocol blocks and the ports for nil, and not the addresses: on the entry
  \<open>noOriginSrc\<close>, whose origin source address is absent and whose other fields are all
  present, it dereferences the nil pointer and panics.
\<close>

theorem isNAT_noOriginSrc_panics: "isNAT noOriginSrc = Inl NilPointerDereference"
  by (simp add: isNAT_def noOriginSrc_def bindE_def deref_def)

theorem isNAT_noOriginSrc_panics_witness:
  "isNAT noOriginSrc \<noteq> Inr False \<and> isNAT noOriginSrc \<noteq> Inr True"
  using isNAT_noOriginSrc_panics by simp

text \<open>
  What \<^verbatim>\<open>formatIPTranslation\<close> returns on an entry that \<^verbatim>\<open>isNAT\<close> takes for NAT:
  every entry it returns holds the addresses and ports of the reply tuple and the
  generation it was given, and it returns one exactly when the reply source address
  is present.
\<close>

lemma formatIPTranslation_reply_fields:
  assumes "isNAT c = Inr True"
  shows "(\<forall>v. formatIPTranslation addressFromNetIP c gen = Inr v \<longrightarrow>
            (\<exists>rep rsrc rdst rproto rsp rdp.
               Reply c = Some rep \<and> Src rep = Some rsrc \<and> Dst rep = Some rdst \<and>
               Proto rep = Some rproto \<and> SrcPort rproto = Some rsp \<and>
               DstPort rproto = Some rdp \<and>
               v = \<lparr>IPTranslation =
                      \<lparr>ReplSrcIP = addressFromNetIP rsrc, ReplDstIP = addressFromNetIP rdst,
                       ReplSrcPort = rsp, ReplDstPort = rdp\<rparr>,
                    expGeneration = gen\<rparr>)) \<and>
         ((\<exists>v. formatIPTranslation addressFromNetIP c gen = Inr v) \<longleftrightarrow>
          (\<exists>rep rsrc. Reply c = Some rep \<and> Src rep = Some rsrc))"
proof -
  from isNAT_True_fields [OF assms(1)] obtain rep where rep: "Reply c = Some rep"
    by blast
  show ?thesis
  proof (cases "Src rep")
    case None
    with rep show ?thesis
      by (simp add: formatIPTranslation_def ReplSrcIP_Con_def bindE_def deref_def)
  next
    case (Some rsrc)
    from formatIPTranslation_of_NAT [OF assms(1) rep Some, of addressFromNetIP gen] rep Some
    show ?thesis by auto
  qed
qed

text \<open>
  Claim C9. For every NAT entry on which \<^verbatim>\<open>formatKey\<close> succeeds,
  \<^verbatim>\<open>formatIPTranslation\<close> is to produce an entry that carries the four fields of the
  reply tuple and the generation. \<^verbatim>\<open>isNAT\<close> stops at its first true disjunct and so
  never looks at the reply source address when the origin source differs from the
  reply destination. On the entry \<open>noReplySrc\<close>, whose reply source address is
  absent, \<^verbatim>\<open>isNAT\<close> returns true and \<^verbatim>\<open>formatKey\<close> succeeds, and
  \<^verbatim>\<open>formatIPTranslation\<close> dereferences the nil pointer and panics: no entry is
  produced.
\<close>

theorem formatIPTranslation_noReplySrc_panics:
  "isNAT noReplySrc = Inr True \<and>
   formatKey AddressFromNetIP noReplySrc = Inr (flowKey [10, 0, 0, 1], True) \<and>
   formatIPTranslation AddressFromNetIP noReplySrc 7 = Inl NilPointerDereference"
  by (simp add: isNAT_def formatKey_def formatIPTranslation_def ReplSrcIP_Con_def
      noReplySrc_def natOrigin_def flowKey_def bindE_def deref_def Equal_def)

theorem formatIPTranslation_noReplySrc_panics_witness:
  "\<not> (\<exists>v. formatIPTranslation AddressFromNetIP noReplySrc 7 = Inr v)"
  using formatIPTranslation_noReplySrc_panics by simp

subsection \<open>The callbacks on a decoded event\<close>

lemma register_decoded:
  assumes "isNAT c = Inr True" and "formatKey addressFromNetIP c = Inr (key, True)"
  shows "register addressFromNetIP shouldLog now then0 c ctr =
     (if len (state ctr) \<ge> maxStateSize ctr then Inr (0, logExceededSize shouldLog ctr)
      else bindE (formatIPTranslation addressFromNetIP c
                      (getNthGeneration generationLength now 3)) (\<lambda>v.
               Inr (0, ctr\<lparr>state := fmupd key v (state ctr),
                           stats := (stats ctr)
                             \<lparr>registers := registers (stats ctr) + 1,
                              registersTotalTime :=
                                registersTotalTime (stats ctr) + (then0 - now)\<rparr>\<rparr>)))"
  using assms by (simp add: register_def bindE_def)

lemma unregister_decoded:
  assumes "isNAT c = Inr True" and "formatKey addressFromNetIP c = Inr (key, True)"
  shows "unregister addressFromNetIP now then0 c ctr =
     Inr (0, (case fmlookup (state ctr) key of
               Some v \<Rightarrow>
                 if len (shortLivedBuffer ctr) < maxShortLivedBuffer ctr then
                   ctr\<lparr>state := fmdrop key (state ctr),
                       shortLivedBuffer := fmupd key (IPTranslation v) (shortLivedBuffer ctr)\<rparr>
                 else ctr\<lparr>state := fmdrop key (state ctr)\<rparr>
             | None \<Rightarrow> ctr\<lparr>state := fmdrop key (state ctr)\<rparr>)
             \<lparr>stats := (stats ctr)
                 \<lparr>unregisters := unregisters (stats ctr) + 1,
                  unregistersTotalTime := unregistersTotalTime (stats ctr) + (then0 - now)\<rparr>\<rparr>)"
  using assms by (simp add: unregister_def bindE_def Let_def split: option.splits)

lemma register_natFlow:
  "length a = 4 \<Longrightarrow>
   register AddressFromNetIP shouldLog now then0 (natFlow a) ctr =
     (if len (state ctr) \<ge> maxStateSize ctr then Inr (0, logExceededSize shouldLog ctr)
      else Inr (0, ctr\<lparr>state := fmupd (flowKey a)
                             (flowEntry a (getNthGeneration generationLength now 3)) (state ctr),
                       stats := (stats ctr)
                         \<lparr>registers := registers (stats ctr) + 1,
                          registersTotalTime :=
                            registersTotalTime (stats ctr) + (then0 - now)\<rparr>\<rparr>))"
  by (simp add: register_decoded [OF isNAT_natFlow formatKey_natFlow]
      formatIPTranslation_natFlow bindE_def flowEntry_def)

lemmas unregister_natFlow = unregister_decoded [OF isNAT_natFlow formatKey_natFlow]

subsection \<open>The public operations\<close>

text \<open>
  Claim C10. \<^verbatim>\<open>ClearShortLived\<close> leaves the short-lived buffer empty and every other
  field of the tracker as it was: the state map with its generation stamps, the two
  capacities, the counters, the handles, the tickers, the background worker and the
  log limiter.
\<close>

theorem ClearShortLived_frame:
  "shortLivedBuffer (ClearShortLived ctr) = fmempty \<and>
   state (ClearShortLived ctr) = state ctr \<and>
   maxShortLivedBuffer (ClearShortLived ctr) = maxShortLivedBuffer ctr \<and>
   maxStateSize (ClearShortLived ctr) = maxStateSize ctr \<and>
   stats (ClearShortLived ctr) = stats ctr \<and>
   nfct (ClearShortLived ctr) = nfct ctr \<and>
   nfctDel (ClearShortLived ctr) = nfctDel ctr \<and>
   statsTicker (ClearShortLived ctr) = statsTicker ctr \<and>
   compactTicker (ClearShortLived ctr) = compactTicker ctr \<and>
   compactWorker (ClearShortLived ctr) = compactWorker ctr \<and>
   exceededSizeLogLimit (ClearShortLived ctr) = exceededSizeLogLimit ctr"
  by (simp add: ClearShortLived_def)

subsection \<open>The capacity of the state map\<close>

text \<open>
  Claim C3, as amended. A NAT create or update event whose key \<open>k\<close> decodes is rejected
  whenever the state map holds at least \<^verbatim>\<open>maxStateSize\<close> entries, whether or not \<open>k\<close>
  is among them: the state map, with the generation stored for \<open>k\<close>, the short-lived
  buffer and the counters stay as they were. When the state map holds fewer entries
  and the entry has a reply source address, the insert succeeds: the entry built for
  the event, stamped with the third generation after \<open>now\<close>, is stored under \<open>k\<close> and
  overwrites what was there, and the registration counter advances.
\<close>

theorem register_capacity:
  assumes "isNAT c = Inr True" and "formatKey addressFromNetIP c = Inr (k, True)"
  shows "(len (state ctr) \<ge> maxStateSize ctr \<longrightarrow>
            (\<exists>ctr'. register addressFromNetIP shouldLog now then0 c ctr = Inr (0, ctr') \<and>
               state ctr' = state ctr \<and> shortLivedBuffer ctr' = shortLivedBuffer ctr \<and>
               stats ctr' = stats ctr)) \<and>
         (len (state ctr) < maxStateSize ctr \<longrightarrow>
            (\<forall>rep rsrc. Reply c = Some rep \<longrightarrow> Src rep = Some rsrc \<longrightarrow>
               (\<exists>ctr' v. register addressFromNetIP shouldLog now then0 c ctr = Inr (0, ctr') \<and>
                  formatIPTranslation addressFromNetIP c
                    (getNthGeneration generationLength now 3) = Inr v \<and>
                  expGeneration v = getNthGeneration generationLength now 3 \<and>
                  state ctr' = fmupd k v (state ctr) \<and>
                  shortLivedBuffer ctr' = shortLivedBuffer ctr \<and>
                  registers (stats ctr') = registers (stats ctr) + 1)))"
proof (intro conjI impI allI)
  assume "len (state ctr) \<ge> maxStateSize ctr"
  then show "\<exists>ctr'. register addressFromNetIP shouldLog now then0 c ctr = Inr (0, ctr') \<and>
               state ctr' = state ctr \<and> shortLivedBuffer ctr' = shortLivedBuffer ctr \<and>
               stats ctr' = stats ctr"
    by (simp add: register_decoded [OF assms] logExceededSize_def)
next
  fix rep rsrc
  assume lt: "len (state ctr) < maxStateSize ctr"
    and rep: "Reply c = Some rep" and src: "Src rep = Some rsrc"
  from formatIPTranslation_of_NAT [OF assms(1) rep src,
      of addressFromNetIP "getNthGeneration generationLength now 3"]
  obtain v where v: "formatIPTranslation addressFromNetIP c
                    (getNthGeneration generationLength now 3) = Inr v"
    and g: "expGeneration v = getNthGeneration generationLength now 3"
    by auto
  from lt v g show "\<exists>ctr' v. register addressFromNetIP shouldLog now then0 c ctr = Inr (0, ctr') \<and>
                  formatIPTranslation addressFromNetIP c
                    (getNthGeneration generationLength now 3) = Inr v \<and>
                  expGeneration v = getNthGeneration generationLength now 3 \<and>
                  state ctr' = fmupd k v (state ctr) \<and>
                  shortLivedBuffer ctr' = shortLivedBuffer ctr \<and>
                  registers (stats ctr') = registers (stats ctr) + 1"
    by (simp add: register_decoded [OF assms] bindE_def)
qed

theorem register_capacity_witness:
  "isNAT flow1 = Inr True \<and>
   formatKey AddressFromNetIP flow1 = Inr (flowKey [10, 0, 0, 1], True) \<and>
   len (state (tracked1 2 1)) \<ge> maxStateSize (tracked1 2 1) \<and>
   (\<exists>ctr'. register AddressFromNetIP ShouldLog time2 (time2 + 5) flow1 (tracked1 2 1) = Inr (0, ctr') \<and>
      state ctr' = state (tracked1 2 1) \<and>
      shortLivedBuffer ctr' = shortLivedBuffer (tracked1 2 1) \<and>
      stats ctr' = stats (tracked1 2 1)) \<and>
   len (state (emptyTracker 2 1)) < maxStateSize (emptyTracker 2 1) \<and>
   Reply flow1 = Some (natReply [10, 0, 0, 1]) \<and>
   Src (natReply [10, 0, 0, 1]) = Some [10, 0, 0, 99] \<and>
   (\<exists>ctr' v. register AddressFromNetIP ShouldLog time1 (time1 + 5) flow1 (emptyTracker 2 1) = Inr (0, ctr') \<and>
      formatIPTranslation AddressFromNetIP flow1 (getNthGeneration generationLength time1 3) = Inr v \<and>
      expGeneration v = getNthGeneration generationLength time1 3 \<and>
      state ctr' = fmupd (flowKey [10, 0, 0, 1]) v (state (emptyTracker 2 1)) \<and>
      shortLivedBuffer ctr' = shortLivedBuffer (emptyTracker 2 1) \<and>
      registers (stats ctr') = registers (stats (emptyTracker 2 1)) + 1)"
proof -
  have n: "isNAT flow1 = Inr True"
    by (simp add: flow1_def isNAT_natFlow)
  have k: "formatKey AddressFromNetIP flow1 = Inr (flowKey [10, 0, 0, 1], True)"
    by (simp add: flow1_def formatKey_natFlow)
  have r: "Reply flow1 = Some (natReply [10, 0, 0, 1])"
    by (simp add: flow1_def natFlow_def)
  have s: "Src (natReply [10, 0, 0, 1]) = Some [10, 0, 0, 99]"
    by (simp add: natReply_def)
  have full: "len (state (tracked1 2 1)) \<ge> maxStateSize (tracked1 2 1)"
    by (simp add: tracked1_def emptyTracker_def len_simps)
  have room: "len (state (emptyTracker 2 1)) < maxStateSize (emptyTracker 2 1)"
    by (simp add: emptyTracker_def len_simps)
  from register_capacity [OF n k, where ctr = "tracked1 2 1" and shouldLog = ShouldLog
      and now = time2 and ?then0.0 = "time2 + 5"]
    register_capacity [OF n k, where ctr = "emptyTracker 2 1" and shouldLog = ShouldLog
      and now = time1 and ?then0.0 = "time1 + 5"]
    n k r s full room
  show ?thesis by blast
qed

text \<open>
  The claim C3 as it was stated fails on the tracker \<open>tracked1 2 1\<close>, which a run
  reaches: its state map is full and holds the key of flow 1 with generation 7. An
  update event for flow 1 in generation 5 is rejected, and the stored generation is
  not refreshed to 8.
\<close>

theorem register_capacity_counterexample:
  "run AddressFromNetIP ShouldLog LogLimit_Close
     [EvRegister time1 (time1 + 5) flow1] (emptyTracker 2 1) = Inr (tracked1 2 1) \<and>
   len (state (tracked1 2 1)) = maxStateSize (tracked1 2 1) \<and>
   fmlookup (state (tracked1 2 1)) (flowKey [10, 0, 0, 1]) = Some (flowEntry [10, 0, 0, 1] 7) \<and>
   isNAT flow1 = Inr True \<and>
   formatKey AddressFromNetIP flow1 = Inr (flowKey [10, 0, 0, 1], True) \<and>
   getNthGeneration generationLength time2 3 = 8 \<and>
   register AddressFromNetIP ShouldLog time2 (time2 + 5) flow1 (tracked1 2 1) =
     Inr (0, (tracked1 2 1)\<lparr>exceededSizeLogLimit := 9\<rparr>)"
  by (simp add: flow1_def isNAT_natFlow formatKey_natFlow getNthGeneration_time1
      getNthGeneration_time2 register_natFlow len_simps emptyTracker_def tracked1_def
      counters_def logExceededSize_def ShouldLog_def NewLogLimit_def)

subsection \<open>The capacity of the short-lived buffer\<close>

text \<open>
  Claim C4, as amended. The short-lived buffer never displaces an entry. A NAT
  destroy event whose key \<open>k\<close> decodes removes \<open>k\<close> from the state map; the
  translation that was stored there moves into the short-lived buffer only while the
  buffer holds fewer than \<^verbatim>\<open>maxShortLivedBuffer\<close> entries. When the buffer is full, or
  when \<open>k\<close> was not in the state map, the buffer stays as it was.
\<close>

theorem unregister_never_displaces:
  assumes "isNAT c = Inr True" and "formatKey addressFromNetIP c = Inr (k, True)"
  shows "\<exists>ctr'. unregister addressFromNetIP now then0 c ctr = Inr (0, ctr') \<and>
           state ctr' = fmdrop k (state ctr) \<and>
           (len (shortLivedBuffer ctr) \<ge> maxShortLivedBuffer ctr \<longrightarrow>
              shortLivedBuffer ctr' = shortLivedBuffer ctr) \<and>
           (fmlookup (state ctr) k = None \<longrightarrow>
              shortLivedBuffer ctr' = shortLivedBuffer ctr) \<and>
           (\<forall>v. len (shortLivedBuffer ctr) < maxShortLivedBuffer ctr \<longrightarrow>
              fmlookup (state ctr) k = Some v \<longrightarrow>
              shortLivedBuffer ctr' = fmupd k (IPTranslation v) (shortLivedBuffer ctr))"
  by (simp add: unregister_decoded [OF assms] split: option.splits)

theorem unregister_never_displaces_witness:
  "isNAT flow3 = Inr True \<and>
   formatKey AddressFromNetIP flow3 = Inr (flowKey [10, 0, 0, 3], True) \<and>
   len (shortLivedBuffer fullState3) \<ge> maxShortLivedBuffer fullState3 \<and>
   fmlookup (state fullState3) (flowKey [10, 0, 0, 3]) = Some (flowEntry [10, 0, 0, 3] 7) \<and>
   (\<exists>ctr'. unregister AddressFromNetIP time1 (time1 + 5) flow3 fullState3 = Inr (0, ctr') \<and>
      state ctr' = fmempty \<and> shortLivedBuffer ctr' = shortLivedBuffer fullState3) \<and>
   isNAT flow1 = Inr True \<and>
   formatKey AddressFromNetIP flow1 = Inr (flowKey [10, 0, 0, 1], True) \<and>
   len (shortLivedBuffer (tracked1 2 10)) < maxShortLivedBuffer (tracked1 2 10) \<and>
   fmlookup (state (tracked1 2 10)) (flowKey [10, 0, 0, 1]) = Some (flowEntry [10, 0, 0, 1] 7) \<and>
   (\<exists>ctr'. unregister AddressFromNetIP time1 (time1 + 5) flow1 (tracked1 2 10) = Inr (0, ctr') \<and>
      state ctr' = fmempty \<and>
      shortLivedBuffer ctr' = fmupd (flowKey [10, 0, 0, 1]) (flowTranslation [10, 0, 0, 1]) fmempty) \<and>
   fmlookup (state (emptyTracker 2 10)) (flowKey [10, 0, 0, 1]) = None \<and>
   (\<exists>ctr'. unregister AddressFromNetIP time1 (time1 + 5) flow1 (emptyTracker 2 10) = Inr (0, ctr') \<and>
      state ctr' = fmempty \<and> shortLivedBuffer ctr' = fmempty)"
proof -
  have n3: "isNAT flow3 = Inr True" and n1: "isNAT flow1 = Inr True"
    by (simp_all add: flow3_def flow1_def isNAT_natFlow)
  have k3: "formatKey AddressFromNetIP flow3 = Inr (flowKey [10, 0, 0, 3], True)"
    and k1: "formatKey AddressFromNetIP flow1 = Inr (flowKey [10, 0, 0, 1], True)"
    by (simp_all add: flow3_def flow1_def formatKey_natFlow)
  have full: "len (shortLivedBuffer fullState3) \<ge> maxShortLivedBuffer fullState3"
    by (simp add: fullState3_def bufferFull_def emptyTracker_def len_simps flowKey_eq)
  have s3: "fmlookup (state fullState3) (flowKey [10, 0, 0, 3]) = Some (flowEntry [10, 0, 0, 3] 7)"
    "state fullState3 = fmupd (flowKey [10, 0, 0, 3]) (flowEntry [10, 0, 0, 3] 7) fmempty"
    by (simp_all add: fullState3_def)
  have room: "len (shortLivedBuffer (tracked1 2 10)) < maxShortLivedBuffer (tracked1 2 10)"
    by (simp add: tracked1_def emptyTracker_def len_simps)
  have s1: "fmlookup (state (tracked1 2 10)) (flowKey [10, 0, 0, 1]) = Some (flowEntry [10, 0, 0, 1] 7)"
    "state (tracked1 2 10) = fmupd (flowKey [10, 0, 0, 1]) (flowEntry [10, 0, 0, 1] 7) fmempty"
    "shortLivedBuffer (tracked1 2 10) = fmempty"
    by (simp_all add: tracked1_def emptyTracker_def)
  have s0: "fmlookup (state (emptyTracker 2 10)) (flowKey [10, 0, 0, 1]) = None"
    "state (emptyTracker 2 10) = fmempty" "shortLivedBuffer (emptyTracker 2 10) = fmempty"
    by (simp_all add: emptyTracker_def)
  from unregister_never_displaces [OF n3 k3, where ctr = fullState3 and now = time1
        and ?then0.0 = "time1 + 5"] full s3
  have A: "\<exists>ctr'. unregister AddressFromNetIP time1 (time1 + 5) flow3 fullState3 = Inr (0, ctr') \<and>
      state ctr' = fmempty \<and> shortLivedBuffer ctr' = shortLivedBuffer fullState3"
    by (auto simp: fmdrop_fmupd)
  from unregister_never_displaces [OF n1 k1, where ctr = "tracked1 2 10" and now = time1
        and ?then0.0 = "time1 + 5"] room s1
  have B: "\<exists>ctr'. unregister AddressFromNetIP time1 (time1 + 5) flow1 (tracked1 2 10) = Inr (0, ctr') \<and>
      state ctr' = fmempty \<and>
      shortLivedBuffer ctr' = fmupd (flowKey [10, 0, 0, 1]) (flowTranslation [10, 0, 0, 1]) fmempty"
    by (auto simp: fmdrop_fmupd flowEntry_def)
  from unregister_never_displaces [OF n1 k1, where ctr = "emptyTracker 2 10" and now = time1
        and ?then0.0 = "time1 + 5"] s0
  have C: "\<exists>ctr'. unregister AddressFromNetIP time1 (time1 + 5) flow1 (emptyTracker 2 10) = Inr (0, ctr') \<and>
      state ctr' = fmempty \<and> shortLivedBuffer ctr' = fmempty"
    by auto
  from n3 k3 full s3(1) A n1 k1 room s1(1) B s0(1) C show ?thesis by blast
qed

text \<open>
  The claim C4 as it was stated fails on the run it describes: with a buffer of
  capacity 2, after flows 1, 2 and 3 were registered and destroyed in turn, the first
  two destroyed flows still resolve and the third, the most recent one, is absent.
\<close>

theorem unregister_never_displaces_counterexample:
  "run AddressFromNetIP ShouldLog LogLimit_Close
     [EvRegister time1 (time1 + 5) flow1, EvUnregister time1 (time1 + 5) flow1,
      EvRegister time1 (time1 + 5) flow2, EvUnregister time1 (time1 + 5) flow2,
      EvRegister time1 (time1 + 5) flow3, EvUnregister time1 (time1 + 5) flow3]
     (emptyTracker 2 10) = Inr bufferFull \<and>
   fst (GetTranslationForConn time2 (time2 + 5) (AddressFromNetIP [10, 0, 0, 1]) 12345
          ConnectionType_tcp bufferFull) = Some (flowTranslation [10, 0, 0, 1]) \<and>
   fst (GetTranslationForConn time2 (time2 + 5) (AddressFromNetIP [10, 0, 0, 2]) 12345
          ConnectionType_tcp bufferFull) = Some (flowTranslation [10, 0, 0, 2]) \<and>
   fst (GetTranslationForConn time2 (time2 + 5) (AddressFromNetIP [10, 0, 0, 3]) 12345
          ConnectionType_tcp bufferFull) = None"
proof (intro conjI)
  show "run AddressFromNetIP ShouldLog LogLimit_Close
     [EvRegister time1 (time1 + 5) flow1, EvUnregister time1 (time1 + 5) flow1,
      EvRegister time1 (time1 + 5) flow2, EvUnregister time1 (time1 + 5) flow2,
      EvRegister time1 (time1 + 5) flow3, EvUnregister time1 (time1 + 5) flow3]
     (emptyTracker 2 10) = Inr bufferFull"
    by (simp add: flow1_def flow2_def flow3_def register_natFlow unregister_natFlow
        getNthGeneration_time1 len_simps flowKey_eq fmdrop_fmupd flowEntry_def
        emptyTracker_def bufferFull_def counters_def)
  have k: "\<And>a. \<lparr>ip = AddressFromNetIP a, port = 12345, transport = ConnectionType_tcp\<rparr> = flowKey a"
    by (simp add: flowKey_def)
  show "fst (GetTranslationForConn time2 (time2 + 5) (AddressFromNetIP [10, 0, 0, 1]) 12345
          ConnectionType_tcp bufferFull) = Some (flowTranslation [10, 0, 0, 1])"
    by (simp add: GetTranslationForConn_def k bufferFull_def emptyTracker_def flowKey_eq)
  show "fst (GetTranslationForConn time2 (time2 + 5) (AddressFromNetIP [10, 0, 0, 2]) 12345
          ConnectionType_tcp bufferFull) = Some (flowTranslation [10, 0, 0, 2])"
    by (simp add: GetTranslationForConn_def k bufferFull_def emptyTracker_def flowKey_eq)
  show "fst (GetTranslationForConn time2 (time2 + 5) (AddressFromNetIP [10, 0, 0, 3]) 12345
          ConnectionType_tcp bufferFull) = None"
    by (simp add: GetTranslationForConn_def k bufferFull_def emptyTracker_def flowKey_eq)
qed

subsection \<open>The two maps\<close>

text \<open>What the events do to the two maps and to the capacity of the state map.\<close>

lemma register_cases:
  assumes "register addressFromNetIP shouldLog now then0 c ctr = Inr (r, ctr')"
  shows "(state ctr' = state ctr \<and> shortLivedBuffer ctr' = shortLivedBuffer ctr \<and>
          maxStateSize ctr' = maxStateSize ctr) \<or>
         (\<exists>key v. isNAT c = Inr True \<and> formatKey addressFromNetIP c = Inr (key, True) \<and>
            len (state ctr) < maxStateSize ctr \<and>
            state ctr' = fmupd key v (state ctr) \<and>
            shortLivedBuffer ctr' = shortLivedBuffer ctr \<and>
            maxStateSize ctr' = maxStateSize ctr)"
  using assms
  by (auto simp: register_def bindE_def logExceededSize_def
      split: sum.splits if_splits prod.splits)

lemma unregister_cases:
  assumes "unregister addressFromNetIP now then0 c ctr = Inr (r, ctr')"
  shows "(state ctr' = state ctr \<and> shortLivedBuffer ctr' = shortLivedBuffer ctr \<and>
          maxStateSize ctr' = maxStateSize ctr) \<or>
         (\<exists>key. state ctr' = fmdrop key (state ctr) \<and> maxStateSize ctr' = maxStateSize ctr \<and>
            (shortLivedBuffer ctr' = shortLivedBuffer ctr \<or>
             (\<exists>t. shortLivedBuffer ctr' = fmupd key t (shortLivedBuffer ctr))))"
proof (cases "isNAT c = Inr True \<and> (\<exists>key. formatKey addressFromNetIP c = Inr (key, True))")
  case True
  then obtain key where n: "isNAT c = Inr True"
    and k: "formatKey addressFromNetIP c = Inr (key, True)"
    by blast
  from assms have "state ctr' = fmdrop key (state ctr) \<and> maxStateSize ctr' = maxStateSize ctr \<and>
            (shortLivedBuffer ctr' = shortLivedBuffer ctr \<or>
             (\<exists>t. shortLivedBuffer ctr' = fmupd key t (shortLivedBuffer ctr)))"
    unfolding unregister_decoded [OF n k]
    by (auto split: option.splits if_splits)
  then show ?thesis by blast
next
  case False
  with assms have "ctr' = ctr"
    by (auto simp: unregister_def bindE_def split: sum.splits if_splits prod.splits)
  then show ?thesis by simp
qed

lemma compact_fields:
  "fmdom (state (compact now ctr)) |\<subseteq>| fmdom (state ctr)"
  "shortLivedBuffer (compact now ctr) = shortLivedBuffer ctr"
  "maxStateSize (compact now ctr) = maxStateSize ctr"
  by (auto simp: compact_def Let_def)

lemma GetTranslationForConn_fields:
  "fmdom (state (snd (GetTranslationForConn then0 now addr prt tr ctr))) = fmdom (state ctr)"
  "shortLivedBuffer (snd (GetTranslationForConn then0 now addr prt tr ctr)) = shortLivedBuffer ctr"
  "maxStateSize (snd (GetTranslationForConn then0 now addr prt tr ctr)) = maxStateSize ctr"
  by (auto simp: GetTranslationForConn_def Let_def fmlookup_dom_iff split: option.splits)







lemma newConntrackerOnce_empty:
  "0 < d \<Longrightarrow>
   newConntrackerOnce AddressFromNetIP NewLogLimit d m None None ([], None) t4 ([], None) t6 =
     Inr (emptyTracker d m)"
  by (simp add: newConntrackerOnce_def loadInitialState_def bindE_def emptyTracker_def)




subsection \<open>The size of the state map\<close>

text \<open>
  The events keep the state map within \<^verbatim>\<open>maxStateSize\<close> once it is there: only
  \<^verbatim>\<open>register\<close> adds a key, and it does so only below the capacity.
\<close>

lemma len_fmupd_le: "len (fmupd k v m) \<le> len m + 1"
  by (simp add: len_simps)

lemma len_mono: "fmdom m |\<subseteq>| fmdom m' \<Longrightarrow> len m \<le> len m'"
  by (simp add: len_def fcard_mono)

lemma len_fmdrop_le: "len (fmdrop k m) \<le> len m"
  by (rule len_mono) auto

lemma step_state_bound:
  assumes "len (state ctr) \<le> maxStateSize ctr"
    and "step addressFromNetIP shouldLog logLimitClose ev ctr = Inr ctr'"
  shows "len (state ctr') \<le> maxStateSize ctr'"
proof (cases ev)
  case (EvRegister now then0 c)
  with assms(2) obtain r where
    reg: "register addressFromNetIP shouldLog now then0 c ctr = Inr (r, ctr')"
    by (auto split: sum.splits)
  from register_cases [OF reg] show ?thesis
  proof
    assume "state ctr' = state ctr \<and> shortLivedBuffer ctr' = shortLivedBuffer ctr \<and>
          maxStateSize ctr' = maxStateSize ctr"
    with assms(1) show ?thesis by simp
  next
    assume "\<exists>key v. isNAT c = Inr True \<and> formatKey addressFromNetIP c = Inr (key, True) \<and>
            len (state ctr) < maxStateSize ctr \<and>
            state ctr' = fmupd key v (state ctr) \<and>
            shortLivedBuffer ctr' = shortLivedBuffer ctr \<and>
            maxStateSize ctr' = maxStateSize ctr"
    then obtain key v where lt: "len (state ctr) < maxStateSize ctr"
      and s: "state ctr' = fmupd key v (state ctr)"
      and m: "maxStateSize ctr' = maxStateSize ctr"
      by blast
    from len_fmupd_le [of key v "state ctr"] lt s m show ?thesis by simp
  qed
next
  case (EvUnregister now then0 c)
  with assms(2) obtain r where
    unreg: "unregister addressFromNetIP now then0 c ctr = Inr (r, ctr')"
    by (auto split: sum.splits)
  from unregister_cases [OF unreg] show ?thesis
  proof
    assume "state ctr' = state ctr \<and> shortLivedBuffer ctr' = shortLivedBuffer ctr \<and>
          maxStateSize ctr' = maxStateSize ctr"
    with assms(1) show ?thesis by simp
  next
    assume "\<exists>key. state ctr' = fmdrop key (state ctr) \<and> maxStateSize ctr' = maxStateSize ctr \<and>
            (shortLivedBuffer ctr' = shortLivedBuffer ctr \<or>
             (\<exists>t. shortLivedBuffer ctr' = fmupd key t (shortLivedBuffer ctr)))"
    then obtain key where s: "state ctr' = fmdrop key (state ctr)"
      and m: "maxStateSize ctr' = maxStateSize ctr"
      by blast
    from len_fmdrop_le [of key "state ctr"] assms(1) s m show ?thesis by simp
  qed
next
  case (EvCompact now)
  with assms(2) have "ctr' = compact now ctr" by simp
  with assms(1) len_mono [OF compact_fields(1) [of now ctr]] show ?thesis
    by (simp add: compact_fields(3))
next
  case (EvGetTranslationForConn then0 now addr prt tr)
  with assms(2) have "ctr' = snd (GetTranslationForConn then0 now addr prt tr ctr)" by simp
  with assms(1) show ?thesis
    by (simp add: len_def GetTranslationForConn_fields)
next
  case EvClearShortLived
  with assms show ?thesis
    by (auto simp: ClearShortLived_def)
next
  case EvClose
  with assms show ?thesis
    by (auto simp: Close_def)
qed

lemma run_state_bound:
  "len (state ctr) \<le> maxStateSize ctr \<Longrightarrow>
   run addressFromNetIP shouldLog logLimitClose evs ctr = Inr ctr' \<Longrightarrow>
   len (state ctr') \<le> maxStateSize ctr'"
proof (induction evs arbitrary: ctr)
  case Nil
  then show ?case by simp
next
  case (Cons ev evs)
  from Cons.prems(2) obtain ctr1 where
    st: "step addressFromNetIP shouldLog logLimitClose ev ctr = Inr ctr1"
    and rn: "run addressFromNetIP shouldLog logLimitClose evs ctr1 = Inr ctr'"
    by (auto split: sum.splits)
  from Cons.IH [OF step_state_bound [OF Cons.prems(1) st] rn] show ?case .
qed

text \<open>
  Claim C2. The state map is to hold at most \<^verbatim>\<open>maxStateSize\<close> entries after every
  sequence of operations, the seeding at construction included. \<^verbatim>\<open>register\<close> checks
  the capacity; \<^verbatim>\<open>loadInitialState\<close> does not. A construction with a capacity of 1
  and a dump of two NAT flows returns a tracker whose state map holds 2 entries.
\<close>

theorem loadInitialState_exceeds_maxStateSize:
  "newConntrackerOnce AddressFromNetIP NewLogLimit 2 1 None None
     ([flow1, flow2], None) time1 ([], None) time1 = Inr seededTwo \<and>
   len (state seededTwo) = 2 \<and> maxStateSize seededTwo = 1"
  by (simp add: newConntrackerOnce_def loadInitialState_def loadInitialState_body_def
      flow1_def flow2_def isNAT_natFlow formatKey_natFlow formatIPTranslation_natFlow
      bindE_def getNthGeneration_time1 seededTwo_def emptyTracker_def flowEntry_def
      len_simps flowKey_eq)

theorem loadInitialState_exceeds_maxStateSize_witness:
  "\<exists>ctr. newConntrackerOnce AddressFromNetIP NewLogLimit 2 1 None None
            ([flow1, flow2], None) time1 ([], None) time1 = Inr ctr \<and>
         maxStateSize ctr < len (state ctr)"
  using loadInitialState_exceeds_maxStateSize by (intro exI [of _ seededTwo]) simp

subsection \<open>Lookup, statistics and shutdown\<close>

lemma flowKey_record:
  "\<lparr>ip = AddressFromNetIP a, port = 12345, transport = ConnectionType_tcp\<rparr> = flowKey a"
  by (simp add: flowKey_def)

text \<open>
  Claim C6. \<^verbatim>\<open>GetTranslationForConn\<close> is a total function of the tracker: it has no
  error result, and the values in the state map are never nil. When the key is in the
  state map, the result is the translation stored there and the stored entry gets the
  third generation after the clock reading taken on entry. When the key is not in the
  state map and is in the short-lived buffer, the result is the translation of the
  buffer. When the key is in neither, the result is absent.
\<close>

theorem GetTranslationForConn_result:
  "(\<forall>v. fmlookup (state ctr) \<lparr>ip = addr, port = prt, transport = tr\<rparr> = Some v \<longrightarrow>
      fst (GetTranslationForConn then0 now addr prt tr ctr) = Some (IPTranslation v) \<and>
      fmlookup (state (snd (GetTranslationForConn then0 now addr prt tr ctr)))
          \<lparr>ip = addr, port = prt, transport = tr\<rparr> =
        Some (v\<lparr>expGeneration := getNthGeneration generationLength then0 3\<rparr>)) \<and>
   (\<forall>t. fmlookup (state ctr) \<lparr>ip = addr, port = prt, transport = tr\<rparr> = None \<longrightarrow>
      fmlookup (shortLivedBuffer ctr) \<lparr>ip = addr, port = prt, transport = tr\<rparr> = Some t \<longrightarrow>
      fst (GetTranslationForConn then0 now addr prt tr ctr) = Some t) \<and>
   (fmlookup (state ctr) \<lparr>ip = addr, port = prt, transport = tr\<rparr> = None \<longrightarrow>
    fmlookup (shortLivedBuffer ctr) \<lparr>ip = addr, port = prt, transport = tr\<rparr> = None \<longrightarrow>
      fst (GetTranslationForConn then0 now addr prt tr ctr) = None)"
  by (simp add: GetTranslationForConn_def Let_def split: option.splits)

theorem GetTranslationForConn_result_witness:
  "fmlookup (state (tracked1 2 10)) (flowKey [10, 0, 0, 1]) = Some (flowEntry [10, 0, 0, 1] 7) \<and>
   fst (GetTranslationForConn time2 (time2 + 5) (AddressFromNetIP [10, 0, 0, 1]) 12345
          ConnectionType_tcp (tracked1 2 10)) = Some (flowTranslation [10, 0, 0, 1]) \<and>
   fmlookup (state (snd (GetTranslationForConn time2 (time2 + 5) (AddressFromNetIP [10, 0, 0, 1])
          12345 ConnectionType_tcp (tracked1 2 10)))) (flowKey [10, 0, 0, 1]) =
     Some (flowEntry [10, 0, 0, 1] 8) \<and>
   fmlookup (state buffered1) (flowKey [10, 0, 0, 1]) = None \<and>
   fmlookup (shortLivedBuffer buffered1) (flowKey [10, 0, 0, 1]) =
     Some (flowTranslation [10, 0, 0, 1]) \<and>
   fst (GetTranslationForConn time2 (time2 + 5) (AddressFromNetIP [10, 0, 0, 1]) 12345
          ConnectionType_tcp buffered1) = Some (flowTranslation [10, 0, 0, 1]) \<and>
   fmlookup (state buffered1) (flowKey [10, 0, 0, 2]) = None \<and>
   fmlookup (shortLivedBuffer buffered1) (flowKey [10, 0, 0, 2]) = None \<and>
   fst (GetTranslationForConn time2 (time2 + 5) (AddressFromNetIP [10, 0, 0, 2]) 12345
          ConnectionType_tcp buffered1) = None"
proof -
  have s1: "fmlookup (state (tracked1 2 10)) (flowKey [10, 0, 0, 1]) =
      Some (flowEntry [10, 0, 0, 1] 7)"
    by (simp add: tracked1_def)
  have s2: "fmlookup (state buffered1) (flowKey [10, 0, 0, 1]) = None"
    "fmlookup (shortLivedBuffer buffered1) (flowKey [10, 0, 0, 1]) =
       Some (flowTranslation [10, 0, 0, 1])"
    by (simp_all add: buffered1_def emptyTracker_def)
  have s3: "fmlookup (state buffered1) (flowKey [10, 0, 0, 2]) = None"
    "fmlookup (shortLivedBuffer buffered1) (flowKey [10, 0, 0, 2]) = None"
    by (simp_all add: buffered1_def emptyTracker_def flowKey_eq)
  from GetTranslationForConn_result [of "tracked1 2 10" "AddressFromNetIP [10, 0, 0, 1]" 12345
      ConnectionType_tcp time2 "time2 + 5"] s1
  have A: "fst (GetTranslationForConn time2 (time2 + 5) (AddressFromNetIP [10, 0, 0, 1]) 12345
          ConnectionType_tcp (tracked1 2 10)) = Some (flowTranslation [10, 0, 0, 1])"
    "fmlookup (state (snd (GetTranslationForConn time2 (time2 + 5) (AddressFromNetIP [10, 0, 0, 1])
          12345 ConnectionType_tcp (tracked1 2 10)))) (flowKey [10, 0, 0, 1]) =
     Some (flowEntry [10, 0, 0, 1] 8)"
    by (simp_all add: flowKey_record flowEntry_def getNthGeneration_time2)
  from GetTranslationForConn_result [of buffered1 "AddressFromNetIP [10, 0, 0, 1]" 12345
      ConnectionType_tcp time2 "time2 + 5"] s2
  have B: "fst (GetTranslationForConn time2 (time2 + 5) (AddressFromNetIP [10, 0, 0, 1]) 12345
          ConnectionType_tcp buffered1) = Some (flowTranslation [10, 0, 0, 1])"
    by (simp add: flowKey_record)
  from GetTranslationForConn_result [of buffered1 "AddressFromNetIP [10, 0, 0, 2]" 12345
      ConnectionType_tcp time2 "time2 + 5"] s3
  have C: "fst (GetTranslationForConn time2 (time2 + 5) (AddressFromNetIP [10, 0, 0, 2]) 12345
          ConnectionType_tcp buffered1) = None"
    by (simp add: flowKey_record)
  from s1 A s2 B s3 C show ?thesis by simp
qed

text \<open>
  Claim C7, as amended. The map that \<^verbatim>\<open>GetStats\<close> returns always has the keys
  \<^verbatim>\<open>state_size\<close>, \<^verbatim>\<open>short_term_buffer_size\<close> and \<^verbatim>\<open>expires\<close>, which hold the sizes of
  the two maps and the expiry counter. It has the pair \<^verbatim>\<open>gets_total\<close> and
  \<^verbatim>\<open>nanoseconds_per_get\<close> exactly when the counter of gets is not zero, and likewise
  \<^verbatim>\<open>registers_total\<close> with \<^verbatim>\<open>nanoseconds_per_register\<close> and \<^verbatim>\<open>unregisters_total\<close>
  with \<^verbatim>\<open>nanoseconds_per_unregister\<close>; the second of each pair is the accumulated
  nanoseconds divided by the count, truncated towards zero. It has no other key.
\<close>

theorem GetStats_keys:
  "fmdom (GetStats ctr) =
     {|''state_size'', ''short_term_buffer_size'', ''expires''|} |\<union>|
     (if gets (stats ctr) \<noteq> 0 then {|''gets_total'', ''nanoseconds_per_get''|} else {||}) |\<union>|
     (if registers (stats ctr) \<noteq> 0
      then {|''registers_total'', ''nanoseconds_per_register''|} else {||}) |\<union>|
     (if unregisters (stats ctr) \<noteq> 0
      then {|''unregisters_total'', ''nanoseconds_per_unregister''|} else {||}) \<and>
   fmlookup (GetStats ctr) ''state_size'' = Some (of_int (len (state ctr))) \<and>
   fmlookup (GetStats ctr) ''short_term_buffer_size'' =
     Some (of_int (len (shortLivedBuffer ctr))) \<and>
   fmlookup (GetStats ctr) ''expires'' = Some (expiresTotal (stats ctr)) \<and>
   (gets (stats ctr) \<noteq> 0 \<longrightarrow>
      fmlookup (GetStats ctr) ''gets_total'' = Some (gets (stats ctr)) \<and>
      fmlookup (GetStats ctr) ''nanoseconds_per_get'' =
        Some (word_of_int (sint (getTimeTotal (stats ctr)) sdiv sint (gets (stats ctr))))) \<and>
   (registers (stats ctr) \<noteq> 0 \<longrightarrow>
      fmlookup (GetStats ctr) ''registers_total'' = Some (registers (stats ctr)) \<and>
      fmlookup (GetStats ctr) ''nanoseconds_per_register'' =
        Some (word_of_int
               (sint (registersTotalTime (stats ctr)) sdiv sint (registers (stats ctr))))) \<and>
   (unregisters (stats ctr) \<noteq> 0 \<longrightarrow>
      fmlookup (GetStats ctr) ''unregisters_total'' = Some (unregisters (stats ctr)) \<and>
      fmlookup (GetStats ctr) ''nanoseconds_per_unregister'' =
        Some (word_of_int
               (sint (unregistersTotalTime (stats ctr)) sdiv sint (unregisters (stats ctr)))))"
proof (intro conjI)
  show "fmdom (GetStats ctr) =
     {|''state_size'', ''short_term_buffer_size'', ''expires''|} |\<union>|
     (if gets (stats ctr) \<noteq> 0 then {|''gets_total'', ''nanoseconds_per_get''|} else {||}) |\<union>|
     (if registers (stats ctr) \<noteq> 0
      then {|''registers_total'', ''nanoseconds_per_register''|} else {||}) |\<union>|
     (if unregisters (stats ctr) \<noteq> 0
      then {|''unregisters_total'', ''nanoseconds_per_unregister''|} else {||})"
    by (auto simp: GetStats_def Let_def)
qed (simp_all add: GetStats_def Let_def div_int64_def)

theorem GetStats_keys_witness:
  "run AddressFromNetIP ShouldLog LogLimit_Close
     [EvRegister time1 (time1 + 5) flow1, EvUnregister time1 (time1 + 5) flow1,
      EvRegister time2 (time2 + 5) flow1,
      EvGetTranslationForConn time2 (time2 + 7) (AddressFromNetIP [10, 0, 0, 1]) 12345
        ConnectionType_tcp]
     (emptyTracker 2 10) = Inr queriedBoth \<and>
   gets (stats queriedBoth) \<noteq> 0 \<and> registers (stats queriedBoth) \<noteq> 0 \<and>
   unregisters (stats queriedBoth) \<noteq> 0 \<and>
   fmdom (GetStats queriedBoth) =
     {|''state_size'', ''short_term_buffer_size'', ''expires'', ''gets_total'',
       ''nanoseconds_per_get'', ''registers_total'', ''nanoseconds_per_register'',
       ''unregisters_total'', ''nanoseconds_per_unregister''|} \<and>
   fmlookup (GetStats queriedBoth) ''state_size'' = Some 1 \<and>
   fmlookup (GetStats queriedBoth) ''short_term_buffer_size'' = Some 1 \<and>
   fmlookup (GetStats queriedBoth) ''expires'' = Some 0 \<and>
   fmlookup (GetStats queriedBoth) ''gets_total'' = Some 1 \<and>
   fmlookup (GetStats queriedBoth) ''nanoseconds_per_get'' = Some 7 \<and>
   fmlookup (GetStats queriedBoth) ''registers_total'' = Some 2 \<and>
   fmlookup (GetStats queriedBoth) ''nanoseconds_per_register'' = Some 5 \<and>
   fmlookup (GetStats queriedBoth) ''unregisters_total'' = Some 1 \<and>
   fmlookup (GetStats queriedBoth) ''nanoseconds_per_unregister'' = Some 5"
proof -
  have r: "run AddressFromNetIP ShouldLog LogLimit_Close
     [EvRegister time1 (time1 + 5) flow1, EvUnregister time1 (time1 + 5) flow1,
      EvRegister time2 (time2 + 5) flow1,
      EvGetTranslationForConn time2 (time2 + 7) (AddressFromNetIP [10, 0, 0, 1]) 12345
        ConnectionType_tcp]
     (emptyTracker 2 10) = Inr queriedBoth"
    by (simp add: flow1_def register_natFlow unregister_natFlow getNthGeneration_time1
        getNthGeneration_time2 len_simps fmdrop_fmupd flowEntry_def flowKey_record
        GetTranslationForConn_def Let_def emptyTracker_def bothMaps_def queriedBoth_def
        counters_def)
  have c: "registers (stats queriedBoth) = 2" "unregisters (stats queriedBoth) = 1"
    "gets (stats queriedBoth) = 1" "getTimeTotal (stats queriedBoth) = 7"
    "registersTotalTime (stats queriedBoth) = 10"
    "unregistersTotalTime (stats queriedBoth) = 5" "expiresTotal (stats queriedBoth) = 0"
    by (simp_all add: queriedBoth_def counters_def)
  have l: "len (state queriedBoth) = 1" "len (shortLivedBuffer queriedBoth) = 1"
    by (simp_all add: queriedBoth_def bothMaps_def emptyTracker_def len_simps)
  from GetStats_keys [of queriedBoth] have
    "fmdom (GetStats queriedBoth) =
     {|''state_size'', ''short_term_buffer_size'', ''expires'', ''gets_total'',
       ''nanoseconds_per_get'', ''registers_total'', ''nanoseconds_per_register'',
       ''unregisters_total'', ''nanoseconds_per_unregister''|} \<and>
   fmlookup (GetStats queriedBoth) ''state_size'' = Some 1 \<and>
   fmlookup (GetStats queriedBoth) ''short_term_buffer_size'' = Some 1 \<and>
   fmlookup (GetStats queriedBoth) ''expires'' = Some 0 \<and>
   fmlookup (GetStats queriedBoth) ''gets_total'' = Some 1 \<and>
   fmlookup (GetStats queriedBoth) ''nanoseconds_per_get'' = Some 7 \<and>
   fmlookup (GetStats queriedBoth) ''registers_total'' = Some 2 \<and>
   fmlookup (GetStats queriedBoth) ''nanoseconds_per_register'' = Some 5 \<and>
   fmlookup (GetStats queriedBoth) ''unregisters_total'' = Some 1 \<and>
   fmlookup (GetStats queriedBoth) ''nanoseconds_per_unregister'' = Some 5"
    unfolding c l by (auto simp: signed_divide_int_def)
  with r c show ?thesis by simp
qed

text \<open>
  The claim C7 as it was stated fails on every tracker: the expiry counter is stored
  under the key \<^verbatim>\<open>expires\<close>, and the map has no key \<^verbatim>\<open>expires_total\<close>.
\<close>

theorem GetStats_keys_counterexample:
  "''expires_total'' |\<notin>| fmdom (GetStats (emptyTracker 2 10)) \<and>
   fmdom (GetStats (emptyTracker 2 10)) =
     {|''state_size'', ''short_term_buffer_size'', ''expires''|}"
  by (auto simp: GetStats_def Let_def emptyTracker_def)

text \<open>
  Claim C8, as amended. \<^verbatim>\<open>Close\<close> stops the compaction ticker and closes the log
  limiter, and changes nothing else: the two kernel handles are left as they were, the
  background worker is not waited for, and the two maps, the capacities and the
  counters are as they were. Calling \<^verbatim>\<open>Close\<close> more than once is safe: when closing
  the log limiter a second time changes nothing, a second \<^verbatim>\<open>Close\<close> leaves the
  tracker as the first left it.
\<close>

theorem Close_effects:
  "compactTicker (Close logLimitClose ctr) = TickerStopped \<and>
   exceededSizeLogLimit (Close logLimitClose ctr) = logLimitClose (exceededSizeLogLimit ctr) \<and>
   nfct (Close logLimitClose ctr) = nfct ctr \<and>
   nfctDel (Close logLimitClose ctr) = nfctDel ctr \<and>
   compactWorker (Close logLimitClose ctr) = compactWorker ctr \<and>
   state (Close logLimitClose ctr) = state ctr \<and>
   shortLivedBuffer (Close logLimitClose ctr) = shortLivedBuffer ctr \<and>
   maxShortLivedBuffer (Close logLimitClose ctr) = maxShortLivedBuffer ctr \<and>
   maxStateSize (Close logLimitClose ctr) = maxStateSize ctr \<and>
   statsTicker (Close logLimitClose ctr) = statsTicker ctr \<and>
   stats (Close logLimitClose ctr) = stats ctr \<and>
   (logLimitClose (logLimitClose (exceededSizeLogLimit ctr)) =
      logLimitClose (exceededSizeLogLimit ctr) \<longrightarrow>
    Close logLimitClose (Close logLimitClose ctr) = Close logLimitClose ctr)"
  by (simp add: Close_def)

theorem Close_effects_witness:
  "LogLimit_Close (LogLimit_Close (exceededSizeLogLimit (emptyTracker 2 10))) =
     LogLimit_Close (exceededSizeLogLimit (emptyTracker 2 10)) \<and>
   Close LogLimit_Close (Close LogLimit_Close (emptyTracker 2 10)) =
     Close LogLimit_Close (emptyTracker 2 10) \<and>
   compactTicker (Close LogLimit_Close (emptyTracker 2 10)) = TickerStopped \<and>
   exceededSizeLogLimit (Close LogLimit_Close (emptyTracker 2 10)) = 10"
proof -
  have h: "LogLimit_Close (LogLimit_Close (exceededSizeLogLimit (emptyTracker 2 10))) =
     LogLimit_Close (exceededSizeLogLimit (emptyTracker 2 10))"
    by (simp add: LogLimit_Close_def)
  have l: "LogLimit_Close (exceededSizeLogLimit (emptyTracker 2 10)) = 10"
    by (simp add: LogLimit_Close_def emptyTracker_def NewLogLimit_def)
  from Close_effects [of LogLimit_Close "emptyTracker 2 10"] h l show ?thesis by simp
qed

text \<open>
  The claim C8 as it was stated fails on a freshly built tracker: after \<^verbatim>\<open>Close\<close>
  both kernel handles are still open and the background worker has not been joined.
\<close>

theorem Close_counterexample:
  "newConntrackerOnce AddressFromNetIP NewLogLimit 2 10 None None ([], None) time1 ([], None) time1 =
     Inr (emptyTracker 2 10) \<and>
   nfct (Close LogLimit_Close (emptyTracker 2 10)) = NfctOpen \<and>
   nfctDel (Close LogLimit_Close (emptyTracker 2 10)) = NfctOpen \<and>
   compactWorker (Close LogLimit_Close (emptyTracker 2 10)) = WorkerRunning \<and>
   nfct (Close LogLimit_Close (emptyTracker 2 10)) \<noteq> NfctClosed \<and>
   nfctDel (Close LogLimit_Close (emptyTracker 2 10)) \<noteq> NfctClosed \<and>
   compactWorker (Close LogLimit_Close (emptyTracker 2 10)) \<noteq> WorkerJoined"
  by (simp add: newConntrackerOnce_empty Close_def emptyTracker_def)

end
